theory Spec2Isabelle
  imports Main "HOL-Library.Word"
begin

unbundle bit_operations_syntax

section \<open>Values that cross the MediaSink interface\<close>

text \<open>
  \<^verbatim>\<open>MultiplexerSink.cpp\<close> never inspects a track type, a time unit, a \<^verbatim>\<open>VideoInfo\<close> or a
  \<^verbatim>\<open>MediaInfo\<close>: it only hands them on.  Their declarations live in headers outside the
  sources at hand, so the model is polymorphic in them (\<open>'track\<close>, \<open>'time\<close>, \<open>'vinfo\<close>,
  \<open>'minfo\<close>).  Pointers and references are addresses; a pointer may be null.  A
  \<^verbatim>\<open>double\<close> is kept as its 64-bit pattern: the composite performs no arithmetic and no
  comparison on it.
\<close>

type_synonym addr = nat
type_synonym pointer = "addr option"
type_synonym double = "64 word"
type_synonym nsAString = string
type_synonym nsresult = "32 word"

text \<open>
  Modelled from the spec: \<^verbatim>\<open>nsresult\<close>, \<^verbatim>\<open>NS_OK\<close>, \<^verbatim>\<open>NS_ERROR_FAILURE\<close> and the macro
  \<^verbatim>\<open>NS_FAILED\<close> are declared in XPCOM's error headers, which are missing from the sources at
  hand.  The spec (sections 4.1 and 7) only tells a successful result from a failed one and
  names the aggregate \<^verbatim>\<open>GenericFailure\<close>; the values are XPCOM's: a 32-bit code whose top
  bit is the failure bit, \<^verbatim>\<open>NS_OK = 0\<close> and \<^verbatim>\<open>NS_ERROR_FAILURE = 0x80004005\<close>.
\<close>

definition NS_OK :: nsresult where
  "NS_OK = 0"

definition NS_ERROR_FAILURE :: nsresult where
  "NS_ERROR_FAILURE = 0x80004005"

definition NS_FAILED :: "nsresult \<Rightarrow> bool" where
  "NS_FAILED rv \<longleftrightarrow> rv AND 0x80000000 \<noteq> 0"

definition NS_SUCCEEDED :: "nsresult \<Rightarrow> bool" where
  "NS_SUCCEEDED rv \<longleftrightarrow> \<not> NS_FAILED rv"

section \<open>Calls on a sink\<close>

text \<open>
  A call of a virtual method runs code the composite knows nothing about.  It works on the
  whole program state \<open>'w\<close> (the two sinks may even share state, or be one object) and
  either returns a value or does not return to its caller at all (a C++ exception or a
  crash): \<^verbatim>\<open>MultiplexerSink.cpp\<close> has no \<^verbatim>\<open>try\<close>, so in the second case the statements
  after the call are not executed.  \<^verbatim>\<open>const\<close> is not modelled: a const method gets the same
  type as any other, which only makes the theorems below more general.
\<close>

datatype 'a completion = Returns 'a | Aborts

type_synonym ('a, 'w) operation = "'w \<Rightarrow> 'a completion \<times> 'w"

definition return_value :: "'a \<Rightarrow> ('a, 'w) operation" where
  "return_value a w = (Returns a, w)"

definition and_then :: "('a, 'w) operation \<Rightarrow> ('a \<Rightarrow> ('b, 'w) operation) \<Rightarrow> ('b, 'w) operation" where
  "and_then f g w = (case f w of (Returns a, w') \<Rightarrow> g a w' | (Aborts, w') \<Rightarrow> (Aborts, w'))"

section \<open>The MediaSink interface\<close>

text \<open>
  The abstract class \<^verbatim>\<open>MediaSink\<close>, as \<^verbatim>\<open>MultiplexerSink.h\<close> overrides it: an object is the
  table of its methods, each closed over the object's own data.
\<close>

record ('w, 'track, 'time, 'vinfo, 'minfo) MediaSink =
  OnEnded :: "'track \<Rightarrow> (pointer, 'w) operation"
  GetEndTime :: "'track \<Rightarrow> ('time, 'w) operation"
  GetPosition :: "pointer \<Rightarrow> ('time, 'w) operation"
  HasUnplayedFrames :: "'track \<Rightarrow> (bool, 'w) operation"
  UnplayedDuration :: "'track \<Rightarrow> ('time, 'w) operation"
  SetVolume :: "double \<Rightarrow> (unit, 'w) operation"
  SetStreamName :: "nsAString \<Rightarrow> (unit, 'w) operation"
  SetPlaybackRate :: "double \<Rightarrow> (unit, 'w) operation"
  SetPreservesPitch :: "bool \<Rightarrow> (unit, 'w) operation"
  SetPlaying :: "bool \<Rightarrow> (unit, 'w) operation"
  PlaybackRate :: "(double, 'w) operation"
  Redraw :: "'vinfo \<Rightarrow> (unit, 'w) operation"
  Start :: "'time \<Rightarrow> 'minfo \<Rightarrow> (nsresult, 'w) operation"
  Stop :: "(unit, 'w) operation"
  IsStarted :: "(bool, 'w) operation"
  IsPlaying :: "(bool, 'w) operation"
  AudioDevice :: "(pointer, 'w) operation"
  Shutdown :: "(unit, 'w) operation"
  SetSecondaryVideoContainer :: "pointer \<Rightarrow> (unit, 'w) operation"
  GetDebugInfo :: "addr \<Rightarrow> (unit, 'w) operation"

section \<open>MultiplexerSink\<close>

text \<open>
  The two private members, both \<^verbatim>\<open>const RefPtr<MediaSink>\<close>.  The model takes both to be
  non-null, as every call through them in the source does.
\<close>

record ('w, 'track, 'time, 'vinfo, 'minfo) MultiplexerSink =
  mVideoSink :: "('w, 'track, 'time, 'vinfo, 'minfo) MediaSink"
  mDecodedStream :: "('w, 'track, 'time, 'vinfo, 'minfo) MediaSink"

definition MultiplexerSink_new ::
  "('w, 'track, 'time, 'vinfo, 'minfo) MediaSink \<Rightarrow> ('w, 'track, 'time, 'vinfo, 'minfo) MediaSink
   \<Rightarrow> ('w, 'track, 'time, 'vinfo, 'minfo) MultiplexerSink" where
  "MultiplexerSink_new aVideoSink aDecodedStream =
     \<lparr>mVideoSink = aVideoSink, mDecodedStream = aDecodedStream\<rparr>"

definition MultiplexerSink_OnEnded ::
  "('w, 'track, 'time, 'vinfo, 'minfo) MultiplexerSink \<Rightarrow> 'track \<Rightarrow> (pointer, 'w) operation" where
  "MultiplexerSink_OnEnded this aType = OnEnded (mVideoSink this) aType"

definition MultiplexerSink_GetEndTime ::
  "('w, 'track, 'time, 'vinfo, 'minfo) MultiplexerSink \<Rightarrow> 'track \<Rightarrow> ('time, 'w) operation" where
  "MultiplexerSink_GetEndTime this aType = GetEndTime (mVideoSink this) aType"

definition MultiplexerSink_GetPosition ::
  "('w, 'track, 'time, 'vinfo, 'minfo) MultiplexerSink \<Rightarrow> pointer \<Rightarrow> ('time, 'w) operation" where
  "MultiplexerSink_GetPosition this aTimeStamp = GetPosition (mVideoSink this) aTimeStamp"

text \<open>The declaration's default argument: \<^verbatim>\<open>TimeStamp* aTimeStamp = nullptr\<close>.\<close>

definition MultiplexerSink_GetPosition_default ::
  "('w, 'track, 'time, 'vinfo, 'minfo) MultiplexerSink \<Rightarrow> ('time, 'w) operation" where
  "MultiplexerSink_GetPosition_default this = MultiplexerSink_GetPosition this None"

definition MultiplexerSink_HasUnplayedFrames ::
  "('w, 'track, 'time, 'vinfo, 'minfo) MultiplexerSink \<Rightarrow> 'track \<Rightarrow> (bool, 'w) operation" where
  "MultiplexerSink_HasUnplayedFrames this aType = HasUnplayedFrames (mVideoSink this) aType"

definition MultiplexerSink_UnplayedDuration ::
  "('w, 'track, 'time, 'vinfo, 'minfo) MultiplexerSink \<Rightarrow> 'track \<Rightarrow> ('time, 'w) operation" where
  "MultiplexerSink_UnplayedDuration this aType = UnplayedDuration (mVideoSink this) aType"

definition MultiplexerSink_SetVolume ::
  "('w, 'track, 'time, 'vinfo, 'minfo) MultiplexerSink \<Rightarrow> double \<Rightarrow> (unit, 'w) operation" where
  "MultiplexerSink_SetVolume this aVolume = SetVolume (mVideoSink this) aVolume"

definition MultiplexerSink_SetStreamName ::
  "('w, 'track, 'time, 'vinfo, 'minfo) MultiplexerSink \<Rightarrow> nsAString \<Rightarrow> (unit, 'w) operation" where
  "MultiplexerSink_SetStreamName this aStreamName =
     and_then (SetStreamName (mVideoSink this) aStreamName)
       (\<lambda>_. SetStreamName (mDecodedStream this) aStreamName)"

definition MultiplexerSink_SetPlaybackRate ::
  "('w, 'track, 'time, 'vinfo, 'minfo) MultiplexerSink \<Rightarrow> double \<Rightarrow> (unit, 'w) operation" where
  "MultiplexerSink_SetPlaybackRate this aPlaybackRate =
     and_then (SetPlaybackRate (mVideoSink this) aPlaybackRate)
       (\<lambda>_. SetPlaybackRate (mDecodedStream this) aPlaybackRate)"

definition MultiplexerSink_SetPreservesPitch ::
  "('w, 'track, 'time, 'vinfo, 'minfo) MultiplexerSink \<Rightarrow> bool \<Rightarrow> (unit, 'w) operation" where
  "MultiplexerSink_SetPreservesPitch this aPreservesPitch =
     SetPreservesPitch (mVideoSink this) aPreservesPitch"

definition MultiplexerSink_SetPlaying ::
  "('w, 'track, 'time, 'vinfo, 'minfo) MultiplexerSink \<Rightarrow> bool \<Rightarrow> (unit, 'w) operation" where
  "MultiplexerSink_SetPlaying this aPlaying =
     and_then (SetPlaying (mVideoSink this) aPlaying)
       (\<lambda>_. SetPlaying (mDecodedStream this) aPlaying)"

definition MultiplexerSink_PlaybackRate ::
  "('w, 'track, 'time, 'vinfo, 'minfo) MultiplexerSink \<Rightarrow> (double, 'w) operation" where
  "MultiplexerSink_PlaybackRate this = PlaybackRate (mVideoSink this)"

definition MultiplexerSink_Redraw ::
  "('w, 'track, 'time, 'vinfo, 'minfo) MultiplexerSink \<Rightarrow> 'vinfo \<Rightarrow> (unit, 'w) operation" where
  "MultiplexerSink_Redraw this aInfo =
     and_then (Redraw (mVideoSink this) aInfo) (\<lambda>_. Redraw (mDecodedStream this) aInfo)"

definition MultiplexerSink_Start ::
  "('w, 'track, 'time, 'vinfo, 'minfo) MultiplexerSink \<Rightarrow> 'time \<Rightarrow> 'minfo
   \<Rightarrow> (nsresult, 'w) operation" where
  "MultiplexerSink_Start this aStartTime aInfo =
     and_then (Start (mVideoSink this) aStartTime aInfo) (\<lambda>videoSinkRes.
     and_then (Start (mDecodedStream this) aStartTime aInfo) (\<lambda>decodedStreamRes.
       if videoSinkRes = decodedStreamRes then return_value videoSinkRes
       else if videoSinkRes = NS_OK then return_value decodedStreamRes
       else if decodedStreamRes = NS_OK then return_value videoSinkRes
       else return_value NS_ERROR_FAILURE))"

definition MultiplexerSink_Stop ::
  "('w, 'track, 'time, 'vinfo, 'minfo) MultiplexerSink \<Rightarrow> (unit, 'w) operation" where
  "MultiplexerSink_Stop this =
     and_then (Stop (mVideoSink this)) (\<lambda>_. Stop (mDecodedStream this))"

definition MultiplexerSink_IsStarted ::
  "('w, 'track, 'time, 'vinfo, 'minfo) MultiplexerSink \<Rightarrow> (bool, 'w) operation" where
  "MultiplexerSink_IsStarted this = IsStarted (mVideoSink this)"

definition MultiplexerSink_IsPlaying ::
  "('w, 'track, 'time, 'vinfo, 'minfo) MultiplexerSink \<Rightarrow> (bool, 'w) operation" where
  "MultiplexerSink_IsPlaying this = IsPlaying (mVideoSink this)"

definition MultiplexerSink_AudioDevice ::
  "('w, 'track, 'time, 'vinfo, 'minfo) MultiplexerSink \<Rightarrow> (pointer, 'w) operation" where
  "MultiplexerSink_AudioDevice this = AudioDevice (mVideoSink this)"

definition MultiplexerSink_Shutdown ::
  "('w, 'track, 'time, 'vinfo, 'minfo) MultiplexerSink \<Rightarrow> (unit, 'w) operation" where
  "MultiplexerSink_Shutdown this =
     and_then (Shutdown (mVideoSink this)) (\<lambda>_. Shutdown (mDecodedStream this))"

definition MultiplexerSink_SetSecondaryVideoContainer ::
  "('w, 'track, 'time, 'vinfo, 'minfo) MultiplexerSink \<Rightarrow> pointer \<Rightarrow> (unit, 'w) operation" where
  "MultiplexerSink_SetSecondaryVideoContainer this aSecondary =
     and_then (SetSecondaryVideoContainer (mVideoSink this) aSecondary)
       (\<lambda>_. SetSecondaryVideoContainer (mDecodedStream this) aSecondary)"

definition MultiplexerSink_GetDebugInfo ::
  "('w, 'track, 'time, 'vinfo, 'minfo) MultiplexerSink \<Rightarrow> addr \<Rightarrow> (unit, 'w) operation" where
  "MultiplexerSink_GetDebugInfo this aInfo = GetDebugInfo (mVideoSink this) aInfo"

text \<open>
  \<^verbatim>\<open>class MultiplexerSink : public MediaSink\<close>: the composite is a sink itself, its method
  table being the twenty overrides above.
\<close>

definition MultiplexerSink_as_MediaSink ::
  "('w, 'track, 'time, 'vinfo, 'minfo) MultiplexerSink
   \<Rightarrow> ('w, 'track, 'time, 'vinfo, 'minfo) MediaSink" where
  "MultiplexerSink_as_MediaSink this =
     \<lparr>OnEnded = MultiplexerSink_OnEnded this,
      GetEndTime = MultiplexerSink_GetEndTime this,
      GetPosition = MultiplexerSink_GetPosition this,
      HasUnplayedFrames = MultiplexerSink_HasUnplayedFrames this,
      UnplayedDuration = MultiplexerSink_UnplayedDuration this,
      SetVolume = MultiplexerSink_SetVolume this,
      SetStreamName = MultiplexerSink_SetStreamName this,
      SetPlaybackRate = MultiplexerSink_SetPlaybackRate this,
      SetPreservesPitch = MultiplexerSink_SetPreservesPitch this,
      SetPlaying = MultiplexerSink_SetPlaying this,
      PlaybackRate = MultiplexerSink_PlaybackRate this,
      Redraw = MultiplexerSink_Redraw this,
      Start = MultiplexerSink_Start this,
      Stop = MultiplexerSink_Stop this,
      IsStarted = MultiplexerSink_IsStarted this,
      IsPlaying = MultiplexerSink_IsPlaying this,
      AudioDevice = MultiplexerSink_AudioDevice this,
      Shutdown = MultiplexerSink_Shutdown this,
      SetSecondaryVideoContainer = MultiplexerSink_SetSecondaryVideoContainer this,
      GetDebugInfo = MultiplexerSink_GetDebugInfo this\<rparr>"

section \<open>Observing the calls on the owned sinks\<close>

text \<open>
  To say which calls the composite makes, each owned sink is wrapped in a recording double:
  it behaves as the sink it wraps and appends to a log, carried beside the program state,
  who was called, with which method and arguments, and how the call completed.  The
  composite itself is not instrumented.
\<close>

datatype owned = VideoSink | DecodedStream

datatype ('track, 'time, 'vinfo, 'minfo) call =
    CallOnEnded 'track
  | CallGetEndTime 'track
  | CallGetPosition pointer
  | CallHasUnplayedFrames 'track
  | CallUnplayedDuration 'track
  | CallSetVolume double
  | CallSetStreamName nsAString
  | CallSetPlaybackRate double
  | CallSetPreservesPitch bool
  | CallSetPlaying bool
  | CallPlaybackRate
  | CallRedraw 'vinfo
  | CallStart 'time 'minfo
  | CallStop
  | CallIsStarted
  | CallIsPlaying
  | CallAudioDevice
  | CallShutdown
  | CallSetSecondaryVideoContainer pointer
  | CallGetDebugInfo addr

datatype 'time result =
    Void
  | OfBool bool
  | OfTime 'time
  | OfDouble double
  | OfNsresult nsresult
  | OfPointer pointer

definition void :: "unit \<Rightarrow> 'time result" where
  "void u = Void"

type_synonym ('track, 'time, 'vinfo, 'minfo) event =
  "owned \<times> ('track, 'time, 'vinfo, 'minfo) call \<times> 'time result completion"

definition recorded ::
  "owned \<Rightarrow> ('track, 'time, 'vinfo, 'minfo) call \<Rightarrow> ('a \<Rightarrow> 'time result) \<Rightarrow> ('a, 'w) operation
   \<Rightarrow> ('a, 'w \<times> ('track, 'time, 'vinfo, 'minfo) event list) operation" where
  "recorded who c tag f wl =
     (case f (fst wl) of (r, w') \<Rightarrow> (r, (w', snd wl @ [(who, c, map_completion tag r)])))"

definition recording ::
  "owned \<Rightarrow> ('w, 'track, 'time, 'vinfo, 'minfo) MediaSink
   \<Rightarrow> ('w \<times> ('track, 'time, 'vinfo, 'minfo) event list, 'track, 'time, 'vinfo, 'minfo) MediaSink" where
  "recording who sink =
     \<lparr>OnEnded = (\<lambda>aType. recorded who (CallOnEnded aType) OfPointer (OnEnded sink aType)),
      GetEndTime = (\<lambda>aType. recorded who (CallGetEndTime aType) OfTime (GetEndTime sink aType)),
      GetPosition = (\<lambda>aTimeStamp.
        recorded who (CallGetPosition aTimeStamp) OfTime (GetPosition sink aTimeStamp)),
      HasUnplayedFrames = (\<lambda>aType.
        recorded who (CallHasUnplayedFrames aType) OfBool (HasUnplayedFrames sink aType)),
      UnplayedDuration = (\<lambda>aType.
        recorded who (CallUnplayedDuration aType) OfTime (UnplayedDuration sink aType)),
      SetVolume = (\<lambda>aVolume. recorded who (CallSetVolume aVolume) void (SetVolume sink aVolume)),
      SetStreamName = (\<lambda>aStreamName.
        recorded who (CallSetStreamName aStreamName) void (SetStreamName sink aStreamName)),
      SetPlaybackRate = (\<lambda>aPlaybackRate.
        recorded who (CallSetPlaybackRate aPlaybackRate) void (SetPlaybackRate sink aPlaybackRate)),
      SetPreservesPitch = (\<lambda>aPreservesPitch.
        recorded who (CallSetPreservesPitch aPreservesPitch) void
          (SetPreservesPitch sink aPreservesPitch)),
      SetPlaying = (\<lambda>aPlaying. recorded who (CallSetPlaying aPlaying) void (SetPlaying sink aPlaying)),
      PlaybackRate = recorded who CallPlaybackRate OfDouble (PlaybackRate sink),
      Redraw = (\<lambda>aInfo. recorded who (CallRedraw aInfo) void (Redraw sink aInfo)),
      Start = (\<lambda>aStartTime aInfo.
        recorded who (CallStart aStartTime aInfo) OfNsresult (Start sink aStartTime aInfo)),
      Stop = recorded who CallStop void (Stop sink),
      IsStarted = recorded who CallIsStarted OfBool (IsStarted sink),
      IsPlaying = recorded who CallIsPlaying OfBool (IsPlaying sink),
      AudioDevice = recorded who CallAudioDevice OfPointer (AudioDevice sink),
      Shutdown = recorded who CallShutdown void (Shutdown sink),
      SetSecondaryVideoContainer = (\<lambda>aSecondary.
        recorded who (CallSetSecondaryVideoContainer aSecondary) void
          (SetSecondaryVideoContainer sink aSecondary)),
      GetDebugInfo = (\<lambda>aInfo. recorded who (CallGetDebugInfo aInfo) void (GetDebugInfo sink aInfo))\<rparr>"

text \<open>The composite built over recording doubles of a primary and a secondary sink.\<close>

definition observed ::
  "('w, 'track, 'time, 'vinfo, 'minfo) MediaSink \<Rightarrow> ('w, 'track, 'time, 'vinfo, 'minfo) MediaSink
   \<Rightarrow> ('w \<times> ('track, 'time, 'vinfo, 'minfo) event list, 'track, 'time, 'vinfo, 'minfo)
        MultiplexerSink" where
  "observed primary secondary =
     MultiplexerSink_new (recording VideoSink primary) (recording DecodedStream secondary)"

text \<open>
  What one run of a composite method on a fresh log shows: the calls made on the owned
  sinks, in order; what those calls returned; the composite's own completion; the program
  state it leaves.
\<close>

definition events_of ::
  "('a, 'w \<times> ('track, 'time, 'vinfo, 'minfo) event list) operation \<Rightarrow> 'w
   \<Rightarrow> ('track, 'time, 'vinfo, 'minfo) event list" where
  "events_of run w = snd (snd (run (w, [])))"

definition calls_of ::
  "('a, 'w \<times> ('track, 'time, 'vinfo, 'minfo) event list) operation \<Rightarrow> 'w
   \<Rightarrow> (owned \<times> ('track, 'time, 'vinfo, 'minfo) call) list" where
  "calls_of run w = map (\<lambda>e. (fst e, fst (snd e))) (events_of run w)"

definition answers_of ::
  "('a, 'w \<times> ('track, 'time, 'vinfo, 'minfo) event list) operation \<Rightarrow> 'w
   \<Rightarrow> 'time result completion list" where
  "answers_of run w = map (\<lambda>e. snd (snd e)) (events_of run w)"

definition outcome_of :: "('a, 'w \<times> 'l list) operation \<Rightarrow> 'w \<Rightarrow> 'a completion" where
  "outcome_of run w = fst (run (w, []))"

definition state_after :: "('a, 'w \<times> 'l list) operation \<Rightarrow> 'w \<Rightarrow> 'w" where
  "state_after run w = fst (snd (run (w, [])))"

text \<open>Calling a sink through the interface, the method chosen by a call descriptor.\<close>

definition answering :: "('a \<Rightarrow> 'time result) \<Rightarrow> ('a, 'w) operation \<Rightarrow> ('time result, 'w) operation" where
  "answering tag f w = (case f w of (r, w') \<Rightarrow> (map_completion tag r, w'))"

fun invoke ::
  "('track, 'time, 'vinfo, 'minfo) call \<Rightarrow> ('w, 'track, 'time, 'vinfo, 'minfo) MediaSink
   \<Rightarrow> ('time result, 'w) operation" where
  "invoke (CallOnEnded aType) sink = answering OfPointer (OnEnded sink aType)"
| "invoke (CallGetEndTime aType) sink = answering OfTime (GetEndTime sink aType)"
| "invoke (CallGetPosition aTimeStamp) sink = answering OfTime (GetPosition sink aTimeStamp)"
| "invoke (CallHasUnplayedFrames aType) sink = answering OfBool (HasUnplayedFrames sink aType)"
| "invoke (CallUnplayedDuration aType) sink = answering OfTime (UnplayedDuration sink aType)"
| "invoke (CallSetVolume aVolume) sink = answering void (SetVolume sink aVolume)"
| "invoke (CallSetStreamName aStreamName) sink = answering void (SetStreamName sink aStreamName)"
| "invoke (CallSetPlaybackRate aPlaybackRate) sink =
     answering void (SetPlaybackRate sink aPlaybackRate)"
| "invoke (CallSetPreservesPitch aPreservesPitch) sink =
     answering void (SetPreservesPitch sink aPreservesPitch)"
| "invoke (CallSetPlaying aPlaying) sink = answering void (SetPlaying sink aPlaying)"
| "invoke CallPlaybackRate sink = answering OfDouble (PlaybackRate sink)"
| "invoke (CallRedraw aInfo) sink = answering void (Redraw sink aInfo)"
| "invoke (CallStart aStartTime aInfo) sink = answering OfNsresult (Start sink aStartTime aInfo)"
| "invoke CallStop sink = answering void (Stop sink)"
| "invoke CallIsStarted sink = answering OfBool (IsStarted sink)"
| "invoke CallIsPlaying sink = answering OfBool (IsPlaying sink)"
| "invoke CallAudioDevice sink = answering OfPointer (AudioDevice sink)"
| "invoke CallShutdown sink = answering void (Shutdown sink)"
| "invoke (CallSetSecondaryVideoContainer aSecondary) sink =
     answering void (SetSecondaryVideoContainer sink aSecondary)"
| "invoke (CallGetDebugInfo aInfo) sink = answering void (GetDebugInfo sink aInfo)"

text \<open>
  Two shapes of forwarding.  A run reaches the primary only when the one call made is the
  call \<open>c\<close> on the primary, and the run completes and leaves the state as that call
  \<open>f\<close> does.  A run reaches both when the calls made are \<open>c\<close> on the primary and then
  \<open>c\<close> on the secondary, and the run completes and leaves the state as the secondary's
  call \<open>g\<close> does when it starts from the state the primary's call \<open>f\<close> left.
\<close>

definition reaches_primary_only ::
  "('a, 'w \<times> ('track, 'time, 'vinfo, 'minfo) event list) operation \<Rightarrow> 'w
   \<Rightarrow> ('track, 'time, 'vinfo, 'minfo) call \<Rightarrow> ('a, 'w) operation \<Rightarrow> bool" where
  "reaches_primary_only run w c f \<longleftrightarrow>
     calls_of run w = [(VideoSink, c)] \<and> outcome_of run w = fst (f w) \<and> state_after run w = snd (f w)"

definition reaches_both ::
  "('a, 'w \<times> ('track, 'time, 'vinfo, 'minfo) event list) operation \<Rightarrow> 'w
   \<Rightarrow> ('track, 'time, 'vinfo, 'minfo) call \<Rightarrow> ('a, 'w) operation \<Rightarrow> ('a, 'w) operation \<Rightarrow> bool" where
  "reaches_both run w c f g \<longleftrightarrow>
     calls_of run w = [(VideoSink, c), (DecodedStream, c)]
     \<and> outcome_of run w = fst (g (snd (f w))) \<and> state_after run w = snd (g (snd (f w)))"

section \<open>Test sinks\<close>

text \<open>
  Two small concrete sinks for the examples: each keeps its own data in one half of the
  program state, answers \<^verbatim>\<open>Start\<close> and \<^verbatim>\<open>Shutdown\<close> as configured, and remembers the
  stream name, the playback rate and the playing flag it was given.
\<close>

record sink_data =
  stream_name :: nsAString
  playback_rate :: double
  playing :: bool
  started :: bool

type_synonym two_sinks = "sink_data \<times> sink_data"

definition idle :: sink_data where
  "idle = \<lparr>stream_name = [], playback_rate = 0, playing = False, started = False\<rparr>"

fun data_of :: "owned \<Rightarrow> two_sinks \<Rightarrow> sink_data" where
  "data_of VideoSink w = fst w"
| "data_of DecodedStream w = snd w"

fun change :: "owned \<Rightarrow> (sink_data \<Rightarrow> sink_data) \<Rightarrow> two_sinks \<Rightarrow> two_sinks" where
  "change VideoSink f w = (f (fst w), snd w)"
| "change DecodedStream f w = (fst w, f (snd w))"

definition TestSink ::
  "owned \<Rightarrow> nsresult completion \<Rightarrow> unit completion \<Rightarrow> (two_sinks, nat, int, nat, nat) MediaSink" where
  "TestSink who startRes shutdownRes =
     \<lparr>OnEnded = (\<lambda>aType w. (Returns None, w)),
      GetEndTime = (\<lambda>aType w. (Returns 0, w)),
      GetPosition = (\<lambda>aTimeStamp w. (Returns 0, w)),
      HasUnplayedFrames = (\<lambda>aType w. (Returns False, w)),
      UnplayedDuration = (\<lambda>aType w. (Returns 0, w)),
      SetVolume = (\<lambda>aVolume w. (Returns (), w)),
      SetStreamName = (\<lambda>aStreamName w.
        (Returns (), change who (\<lambda>d. d\<lparr>stream_name := aStreamName\<rparr>) w)),
      SetPlaybackRate = (\<lambda>aPlaybackRate w.
        (Returns (), change who (\<lambda>d. d\<lparr>playback_rate := aPlaybackRate\<rparr>) w)),
      SetPreservesPitch = (\<lambda>aPreservesPitch w. (Returns (), w)),
      SetPlaying = (\<lambda>aPlaying w. (Returns (), change who (\<lambda>d. d\<lparr>playing := aPlaying\<rparr>) w)),
      PlaybackRate = (\<lambda>w. (Returns (playback_rate (data_of who w)), w)),
      Redraw = (\<lambda>aInfo w. (Returns (), w)),
      Start = (\<lambda>aStartTime aInfo w.
        (startRes, change who (\<lambda>d. d\<lparr>started := (startRes = Returns NS_OK)\<rparr>) w)),
      Stop = (\<lambda>w. (Returns (), change who (\<lambda>d. d\<lparr>started := False\<rparr>) w)),
      IsStarted = (\<lambda>w. (Returns (started (data_of who w)), w)),
      IsPlaying = (\<lambda>w. (Returns (playing (data_of who w)), w)),
      AudioDevice = (\<lambda>w. (Returns None, w)),
      Shutdown = (\<lambda>w. (shutdownRes, w)),
      SetSecondaryVideoContainer = (\<lambda>aSecondary w. (Returns (), w)),
      GetDebugInfo = (\<lambda>aInfo w. (Returns (), w))\<rparr>"

section \<open>Facts about calls and recordings\<close>

lemma NS_FAILED_NS_ERROR_FAILURE: "NS_FAILED NS_ERROR_FAILURE"
  by (simp add: NS_FAILED_def NS_ERROR_FAILURE_def)

lemma NS_OK_not_failed: "\<not> NS_FAILED NS_OK"
  by (simp add: NS_FAILED_def NS_OK_def)

lemma NS_OK_neq_NS_ERROR_FAILURE: "NS_OK \<noteq> NS_ERROR_FAILURE"
  by (simp add: NS_OK_def NS_ERROR_FAILURE_def)

lemmas MultiplexerSink_defs =
  MultiplexerSink_OnEnded_def MultiplexerSink_GetEndTime_def MultiplexerSink_GetPosition_def
  MultiplexerSink_GetPosition_default_def
  MultiplexerSink_HasUnplayedFrames_def MultiplexerSink_UnplayedDuration_def
  MultiplexerSink_SetVolume_def MultiplexerSink_SetStreamName_def
  MultiplexerSink_SetPlaybackRate_def MultiplexerSink_SetPreservesPitch_def
  MultiplexerSink_SetPlaying_def MultiplexerSink_PlaybackRate_def MultiplexerSink_Redraw_def
  MultiplexerSink_Stop_def MultiplexerSink_IsStarted_def
  MultiplexerSink_IsPlaying_def MultiplexerSink_AudioDevice_def MultiplexerSink_Shutdown_def
  MultiplexerSink_SetSecondaryVideoContainer_def MultiplexerSink_GetDebugInfo_def

lemma observed_members:
  "mVideoSink (observed primary secondary) = recording VideoSink primary"
  "mDecodedStream (observed primary secondary) = recording DecodedStream secondary"
  by (simp_all add: observed_def MultiplexerSink_new_def)

lemma recorded_run:
  "recorded who c tag f (w, log) =
     (fst (f w), snd (f w), log @ [(who, c, map_completion tag (fst (f w)))])"
  by (simp add: recorded_def split: prod.split)

lemma forwarded_once:
  "events_of (recorded who c tag f) w = [(who, c, map_completion tag (fst (f w)))]"
  "outcome_of (recorded who c tag f) w = fst (f w)"
  "state_after (recorded who c tag f) w = snd (f w)"
  by (simp_all add: events_of_def outcome_of_def state_after_def recorded_run)

lemma both_run:
  "and_then (recorded VideoSink c tag f) (\<lambda>_. recorded DecodedStream c tag g) (w, [])
   = (case fst (f w) of
        Returns a \<Rightarrow>
          (fst (g (snd (f w))), snd (g (snd (f w))),
           [(VideoSink, c, Returns (tag a)),
            (DecodedStream, c, map_completion tag (fst (g (snd (f w)))))])
      | Aborts \<Rightarrow> (Aborts, snd (f w), [(VideoSink, c, Aborts)]))"
  by (simp add: and_then_def recorded_run split: prod.split completion.split)

lemma Start_run:
  "MultiplexerSink_Start (observed primary secondary) aStartTime aInfo (w, [])
   = (case fst (Start primary aStartTime aInfo w) of
        Returns p \<Rightarrow>
          (let w1 = snd (Start primary aStartTime aInfo w);
               s' = fst (Start secondary aStartTime aInfo w1);
               w2 = snd (Start secondary aStartTime aInfo w1);
               log = [(VideoSink, CallStart aStartTime aInfo, Returns (OfNsresult p)),
                      (DecodedStream, CallStart aStartTime aInfo, map_completion OfNsresult s')]
           in case s' of
                Returns s \<Rightarrow>
                  (Returns (if p = s then p else if p = NS_OK then s
                            else if s = NS_OK then p else NS_ERROR_FAILURE), w2, log)
              | Aborts \<Rightarrow> (Aborts, w2, log))
      | Aborts \<Rightarrow>
          (Aborts, snd (Start primary aStartTime aInfo w),
           [(VideoSink, CallStart aStartTime aInfo, Aborts)]))"
  by (simp add: MultiplexerSink_Start_def observed_members recording_def and_then_def
      recorded_run return_value_def Let_def split: prod.split completion.split)

lemma answering_run:
  "events_of (answering tag run) w = events_of run w"
  "outcome_of (answering tag run) w = map_completion tag (outcome_of run w)"
  by (simp_all add: events_of_def outcome_of_def answering_def split: prod.split)

lemma both_observed:
  "events_of (and_then (recorded VideoSink c tag f) (\<lambda>_. recorded DecodedStream c tag g)) w
   = (case fst (f w) of
        Returns a \<Rightarrow> [(VideoSink, c, Returns (tag a)),
            (DecodedStream, c, map_completion tag (fst (g (snd (f w)))))]
      | Aborts \<Rightarrow> [(VideoSink, c, Aborts)])"
  "outcome_of (and_then (recorded VideoSink c tag f) (\<lambda>_. recorded DecodedStream c tag g)) w
   = (case fst (f w) of Returns a \<Rightarrow> fst (g (snd (f w))) | Aborts \<Rightarrow> Aborts)"
  "state_after (and_then (recorded VideoSink c tag f) (\<lambda>_. recorded DecodedStream c tag g)) w
   = (case fst (f w) of Returns a \<Rightarrow> snd (g (snd (f w))) | Aborts \<Rightarrow> snd (f w))"
  by (simp_all add: events_of_def outcome_of_def state_after_def both_run split: completion.split)

lemma Start_observed:
  "events_of (MultiplexerSink_Start (observed primary secondary) aStartTime aInfo) w
   = (case fst (Start primary aStartTime aInfo w) of
        Returns p \<Rightarrow>
          [(VideoSink, CallStart aStartTime aInfo, Returns (OfNsresult p)),
           (DecodedStream, CallStart aStartTime aInfo,
            map_completion OfNsresult
              (fst (Start secondary aStartTime aInfo (snd (Start primary aStartTime aInfo w)))))]
      | Aborts \<Rightarrow> [(VideoSink, CallStart aStartTime aInfo, Aborts)])"
  "outcome_of (MultiplexerSink_Start (observed primary secondary) aStartTime aInfo) w
   = (case fst (Start primary aStartTime aInfo w) of
        Returns p \<Rightarrow>
          (case fst (Start secondary aStartTime aInfo (snd (Start primary aStartTime aInfo w))) of
             Returns s \<Rightarrow>
               Returns (if p = s then p else if p = NS_OK then s
                        else if s = NS_OK then p else NS_ERROR_FAILURE)
           | Aborts \<Rightarrow> Aborts)
      | Aborts \<Rightarrow> Aborts)"
  "state_after (MultiplexerSink_Start (observed primary secondary) aStartTime aInfo) w
   = (case fst (Start primary aStartTime aInfo w) of
        Returns p \<Rightarrow> snd (Start secondary aStartTime aInfo (snd (Start primary aStartTime aInfo w)))
      | Aborts \<Rightarrow> snd (Start primary aStartTime aInfo w))"
  by (simp_all add: events_of_def outcome_of_def state_after_def Start_run Let_def
      split: completion.split)

lemmas observe =
  MultiplexerSink_defs observed_members recording_def calls_of_def answers_of_def
  forwarded_once both_observed Start_observed

lemmas observe' = observe reaches_primary_only_def reaches_both_def

section \<open>The result of Start\<close>

text \<open>
  C1 (as amended).  When the primary's \<^verbatim>\<open>Start\<close> returns \<open>p\<close> and the secondary's returns
  \<open>s\<close>, \<^verbatim>\<open>MultiplexerSink::Start\<close> returns the common result if \<open>p = s\<close>; the other
  sink's result if one of the two is \<^verbatim>\<open>NS_OK\<close>, so a single failure is handed on and not
  masked; and \<^verbatim>\<open>NS_ERROR_FAILURE\<close> if the two differ and neither is \<^verbatim>\<open>NS_OK\<close>.  Hence
  the composite returns \<^verbatim>\<open>NS_OK\<close> exactly when both sinks do, and it fails as soon as one
  sink fails (in particular when both fail).
\<close>

theorem Start_merges_results:
  assumes "Start (mVideoSink this) aStartTime aInfo w = (Returns p, w1)"
      and "Start (mDecodedStream this) aStartTime aInfo w1 = (Returns s, w2)"
  shows "\<exists>r. MultiplexerSink_Start this aStartTime aInfo w = (Returns r, w2)
           \<and> (p = s \<longrightarrow> r = p)
           \<and> (p = NS_OK \<longrightarrow> r = s)
           \<and> (s = NS_OK \<longrightarrow> r = p)
           \<and> (p \<noteq> s \<and> p \<noteq> NS_OK \<and> s \<noteq> NS_OK \<longrightarrow> r = NS_ERROR_FAILURE)
           \<and> (r = NS_OK \<longleftrightarrow> p = NS_OK \<and> s = NS_OK)
           \<and> (NS_FAILED p \<or> NS_FAILED s \<longrightarrow> NS_FAILED r)"
  using assms NS_FAILED_NS_ERROR_FAILURE NS_OK_not_failed NS_OK_neq_NS_ERROR_FAILURE
  by (auto simp: MultiplexerSink_Start_def and_then_def return_value_def)

text \<open>
  An instance: the primary fails with \<^verbatim>\<open>NS_ERROR_FAILURE\<close>, the secondary returns
  \<^verbatim>\<open>NS_OK\<close>, and the composite returns the primary's failure.
\<close>

theorem Start_merges_results_witness:
  "Start (mVideoSink (MultiplexerSink_new (TestSink VideoSink (Returns NS_ERROR_FAILURE) (Returns ()))
            (TestSink DecodedStream (Returns NS_OK) (Returns ())))) 0 0 (idle, idle)
     = (Returns NS_ERROR_FAILURE, (idle, idle))
   \<and> Start (mDecodedStream (MultiplexerSink_new
            (TestSink VideoSink (Returns NS_ERROR_FAILURE) (Returns ()))
            (TestSink DecodedStream (Returns NS_OK) (Returns ())))) 0 0 (idle, idle)
     = (Returns NS_OK, (idle, idle\<lparr>started := True\<rparr>))
   \<and> MultiplexerSink_Start (MultiplexerSink_new
          (TestSink VideoSink (Returns NS_ERROR_FAILURE) (Returns ()))
          (TestSink DecodedStream (Returns NS_OK) (Returns ()))) 0 0 (idle, idle)
     = (Returns NS_ERROR_FAILURE, (idle, idle\<lparr>started := True\<rparr>))"
proof -
  let ?m = "MultiplexerSink_new (TestSink VideoSink (Returns NS_ERROR_FAILURE) (Returns ()))
                 (TestSink DecodedStream (Returns NS_OK) (Returns ()))"
  have primary: "Start (mVideoSink ?m) 0 0 (idle, idle)
                   = (Returns NS_ERROR_FAILURE, (idle, idle))"
    by (simp add: MultiplexerSink_new_def TestSink_def idle_def NS_OK_neq_NS_ERROR_FAILURE [symmetric])
  have secondary: "Start (mDecodedStream ?m) 0 0 (idle, idle)
                     = (Returns NS_OK, (idle, idle\<lparr>started := True\<rparr>))"
    by (simp add: MultiplexerSink_new_def TestSink_def)
  from Start_merges_results [OF primary secondary]
  obtain r where "MultiplexerSink_Start ?m 0 0 (idle, idle)
                    = (Returns r, (idle, idle\<lparr>started := True\<rparr>))"
    and "r = NS_ERROR_FAILURE"
    by blast
  with primary secondary show ?thesis
    by simp
qed

text \<open>
  The claim as written fails where only one sink succeeds: with the primary returning
  \<^verbatim>\<open>NS_OK\<close> and the secondary \<^verbatim>\<open>NS_ERROR_FAILURE\<close>, the composite returns the failure.
\<close>

theorem Start_ok_and_error_counterexample:
  "fst (Start (TestSink VideoSink (Returns NS_OK) (Returns ())) 0 0 (idle, idle)) = Returns NS_OK
   \<and> NS_SUCCEEDED NS_OK
   \<and> fst (MultiplexerSink_Start
        (MultiplexerSink_new (TestSink VideoSink (Returns NS_OK) (Returns ()))
           (TestSink DecodedStream (Returns NS_ERROR_FAILURE) (Returns ()))) 0 0 (idle, idle))
      = Returns NS_ERROR_FAILURE
   \<and> NS_FAILED NS_ERROR_FAILURE
   \<and> NS_ERROR_FAILURE \<noteq> NS_OK"
  by (simp add: MultiplexerSink_Start_def MultiplexerSink_new_def TestSink_def and_then_def
      return_value_def NS_OK_def NS_ERROR_FAILURE_def NS_FAILED_def NS_SUCCEEDED_def)

text \<open>
  C2.  One call of \<^verbatim>\<open>MultiplexerSink::Start\<close> calls \<^verbatim>\<open>Start\<close> on the primary sink exactly
  once and then on the secondary sink exactly once, whatever result \<open>p\<close> (success or
  failure) the primary's \<^verbatim>\<open>Start\<close> returned: there is no short-circuit.
\<close>

theorem Start_calls_each_sink_once:
  assumes "fst (Start primary aStartTime aInfo w) = Returns p"
  shows "calls_of (MultiplexerSink_Start (observed primary secondary) aStartTime aInfo) w
           = [(VideoSink, CallStart aStartTime aInfo), (DecodedStream, CallStart aStartTime aInfo)]
         \<and> count_list (map fst (calls_of
             (MultiplexerSink_Start (observed primary secondary) aStartTime aInfo) w)) VideoSink = 1
         \<and> count_list (map fst (calls_of
             (MultiplexerSink_Start (observed primary secondary) aStartTime aInfo) w)) DecodedStream = 1"
  using assms
  by (simp add: calls_of_def events_of_def Start_run Let_def split: completion.split)


text \<open>
  An instance where the primary's \<^verbatim>\<open>Start\<close> fails: the secondary is started all the same.
\<close>

theorem Start_calls_each_sink_once_witness:
  "fst (Start (TestSink VideoSink (Returns NS_ERROR_FAILURE) (Returns ())) 0 0 (idle, idle))
     = Returns NS_ERROR_FAILURE
   \<and> calls_of (MultiplexerSink_Start
        (observed (TestSink VideoSink (Returns NS_ERROR_FAILURE) (Returns ()))
           (TestSink DecodedStream (Returns NS_OK) (Returns ()))) 0 0) (idle, idle)
     = [(VideoSink, CallStart 0 0), (DecodedStream, CallStart 0 0)]"
  using Start_calls_each_sink_once [of "TestSink VideoSink (Returns NS_ERROR_FAILURE) (Returns ())"
      0 0 "(idle, idle)" NS_ERROR_FAILURE "TestSink DecodedStream (Returns NS_OK) (Returns ())"]
  by (simp add: TestSink_def)

section \<open>Forwarding\<close>

text \<open>
  C3.  For every track type and every state, each query of the composite (\<^verbatim>\<open>OnEnded\<close>,
  \<^verbatim>\<open>GetEndTime\<close>, \<^verbatim>\<open>GetPosition\<close>, \<^verbatim>\<open>HasUnplayedFrames\<close>, \<^verbatim>\<open>UnplayedDuration\<close>,
  \<^verbatim>\<open>IsStarted\<close>, \<^verbatim>\<open>IsPlaying\<close>, \<^verbatim>\<open>AudioDevice\<close>, \<^verbatim>\<open>PlaybackRate\<close>) completes exactly as
  the same call on the primary sink does, and the only call made is that one call on the
  primary: the secondary sink is not called, so nothing it would answer can matter.
\<close>

theorem queries_answered_by_primary_alone:
  "reaches_primary_only (MultiplexerSink_OnEnded (observed primary secondary) aType) w
     (CallOnEnded aType) (OnEnded primary aType)
   \<and> reaches_primary_only (MultiplexerSink_GetEndTime (observed primary secondary) aType) w
     (CallGetEndTime aType) (GetEndTime primary aType)
   \<and> reaches_primary_only (MultiplexerSink_GetPosition (observed primary secondary) aTimeStamp) w
     (CallGetPosition aTimeStamp) (GetPosition primary aTimeStamp)
   \<and> reaches_primary_only (MultiplexerSink_HasUnplayedFrames (observed primary secondary) aType) w
     (CallHasUnplayedFrames aType) (HasUnplayedFrames primary aType)
   \<and> reaches_primary_only (MultiplexerSink_UnplayedDuration (observed primary secondary) aType) w
     (CallUnplayedDuration aType) (UnplayedDuration primary aType)
   \<and> reaches_primary_only (MultiplexerSink_IsStarted (observed primary secondary)) w
     CallIsStarted (IsStarted primary)
   \<and> reaches_primary_only (MultiplexerSink_IsPlaying (observed primary secondary)) w
     CallIsPlaying (IsPlaying primary)
   \<and> reaches_primary_only (MultiplexerSink_AudioDevice (observed primary secondary)) w
     CallAudioDevice (AudioDevice primary)
   \<and> reaches_primary_only (MultiplexerSink_PlaybackRate (observed primary secondary)) w
     CallPlaybackRate (PlaybackRate primary)"
  by (simp add: observe')

text \<open>
  C4.  Each of \<^verbatim>\<open>SetStreamName\<close>, \<^verbatim>\<open>SetPlaybackRate\<close>, \<^verbatim>\<open>SetPlaying\<close>, \<^verbatim>\<open>Redraw\<close>,
  \<^verbatim>\<open>Stop\<close>, \<^verbatim>\<open>Shutdown\<close> and \<^verbatim>\<open>SetSecondaryVideoContainer\<close> calls the operation of the
  same name, with the same argument, on the primary sink and, once that call has returned,
  on the secondary sink; no test decides whether the second call is made.  The operations
  return no value.
\<close>

theorem mutators_reach_both_sinks:
  "(fst (SetStreamName primary aStreamName w) = Returns () \<longrightarrow>
      reaches_both (MultiplexerSink_SetStreamName (observed primary secondary) aStreamName) w
        (CallSetStreamName aStreamName)
        (SetStreamName primary aStreamName) (SetStreamName secondary aStreamName))
   \<and> (fst (SetPlaybackRate primary aPlaybackRate w) = Returns () \<longrightarrow>
      reaches_both (MultiplexerSink_SetPlaybackRate (observed primary secondary) aPlaybackRate) w
        (CallSetPlaybackRate aPlaybackRate)
        (SetPlaybackRate primary aPlaybackRate) (SetPlaybackRate secondary aPlaybackRate))
   \<and> (fst (SetPlaying primary aPlaying w) = Returns () \<longrightarrow>
      reaches_both (MultiplexerSink_SetPlaying (observed primary secondary) aPlaying) w
        (CallSetPlaying aPlaying) (SetPlaying primary aPlaying) (SetPlaying secondary aPlaying))
   \<and> (fst (Redraw primary aInfo w) = Returns () \<longrightarrow>
      reaches_both (MultiplexerSink_Redraw (observed primary secondary) aInfo) w
        (CallRedraw aInfo) (Redraw primary aInfo) (Redraw secondary aInfo))
   \<and> (fst (Stop primary w) = Returns () \<longrightarrow>
      reaches_both (MultiplexerSink_Stop (observed primary secondary)) w
        CallStop (Stop primary) (Stop secondary))
   \<and> (fst (Shutdown primary w) = Returns () \<longrightarrow>
      reaches_both (MultiplexerSink_Shutdown (observed primary secondary)) w
        CallShutdown (Shutdown primary) (Shutdown secondary))
   \<and> (fst (SetSecondaryVideoContainer primary aSecondary w) = Returns () \<longrightarrow>
      reaches_both (MultiplexerSink_SetSecondaryVideoContainer (observed primary secondary) aSecondary) w
        (CallSetSecondaryVideoContainer aSecondary)
        (SetSecondaryVideoContainer primary aSecondary)
        (SetSecondaryVideoContainer secondary aSecondary))"
  by (simp add: observe')

text \<open>
  An instance on the two test sinks: after \<^verbatim>\<open>SetStreamName("x")\<close> both hold the name
  \<^verbatim>\<open>"x"\<close>, and each of the other six operations reaches both.
\<close>

theorem mutators_reach_both_sinks_witness:
  "fst (SetStreamName (TestSink VideoSink (Returns NS_OK) (Returns ())) ''x'' (idle, idle))
     = Returns ()
   \<and> reaches_both (MultiplexerSink_SetStreamName
        (observed (TestSink VideoSink (Returns NS_OK) (Returns ()))
           (TestSink DecodedStream (Returns NS_OK) (Returns ()))) ''x'') (idle, idle)
        (CallSetStreamName ''x'')
        (SetStreamName (TestSink VideoSink (Returns NS_OK) (Returns ())) ''x'')
        (SetStreamName (TestSink DecodedStream (Returns NS_OK) (Returns ())) ''x'')
   \<and> state_after (MultiplexerSink_SetStreamName
        (observed (TestSink VideoSink (Returns NS_OK) (Returns ()))
           (TestSink DecodedStream (Returns NS_OK) (Returns ()))) ''x'') (idle, idle)
     = (idle\<lparr>stream_name := ''x''\<rparr>, idle\<lparr>stream_name := ''x''\<rparr>)
   \<and> calls_of (MultiplexerSink_SetPlaybackRate
        (observed (TestSink VideoSink (Returns NS_OK) (Returns ()))
           (TestSink DecodedStream (Returns NS_OK) (Returns ()))) 0x4000000000000000) (idle, idle)
     = [(VideoSink, CallSetPlaybackRate 0x4000000000000000),
        (DecodedStream, CallSetPlaybackRate 0x4000000000000000)]
   \<and> calls_of (MultiplexerSink_SetPlaying
        (observed (TestSink VideoSink (Returns NS_OK) (Returns ()))
           (TestSink DecodedStream (Returns NS_OK) (Returns ()))) True) (idle, idle)
     = [(VideoSink, CallSetPlaying True), (DecodedStream, CallSetPlaying True)]
   \<and> calls_of (MultiplexerSink_Redraw
        (observed (TestSink VideoSink (Returns NS_OK) (Returns ()))
           (TestSink DecodedStream (Returns NS_OK) (Returns ()))) 7) (idle, idle)
     = [(VideoSink, CallRedraw 7), (DecodedStream, CallRedraw 7)]
   \<and> calls_of (MultiplexerSink_Stop
        (observed (TestSink VideoSink (Returns NS_OK) (Returns ()))
           (TestSink DecodedStream (Returns NS_OK) (Returns ())))) (idle, idle)
     = [(VideoSink, CallStop), (DecodedStream, CallStop)]
   \<and> calls_of (MultiplexerSink_Shutdown
        (observed (TestSink VideoSink (Returns NS_OK) (Returns ()))
           (TestSink DecodedStream (Returns NS_OK) (Returns ())))) (idle, idle)
     = [(VideoSink, CallShutdown), (DecodedStream, CallShutdown)]
   \<and> calls_of (MultiplexerSink_SetSecondaryVideoContainer
        (observed (TestSink VideoSink (Returns NS_OK) (Returns ()))
           (TestSink DecodedStream (Returns NS_OK) (Returns ()))) (Some 4096)) (idle, idle)
     = [(VideoSink, CallSetSecondaryVideoContainer (Some 4096)),
        (DecodedStream, CallSetSecondaryVideoContainer (Some 4096))]"
proof -
  let ?P = "TestSink VideoSink (Returns NS_OK) (Returns ())"
  let ?S = "TestSink DecodedStream (Returns NS_OK) (Returns ())"
  have returns:
    "fst (SetStreamName ?P ''x'' (idle, idle)) = Returns ()"
    "fst (SetPlaybackRate ?P 0x4000000000000000 (idle, idle)) = Returns ()"
    "fst (SetPlaying ?P True (idle, idle)) = Returns ()"
    "fst (Redraw ?P 7 (idle, idle)) = Returns ()"
    "fst (Stop ?P (idle, idle)) = Returns ()"
    "fst (Shutdown ?P (idle, idle)) = Returns ()"
    "fst (SetSecondaryVideoContainer ?P (Some 4096) (idle, idle)) = Returns ()"
    by (simp_all add: TestSink_def)
  have name: "snd (SetStreamName ?S ''x'' (snd (SetStreamName ?P ''x'' (idle, idle))))
      = (idle\<lparr>stream_name := ''x''\<rparr>, idle\<lparr>stream_name := ''x''\<rparr>)"
    by (simp add: TestSink_def)
  from mutators_reach_both_sinks [where primary = ?P and secondary = ?S and w = "(idle, idle)"
      and aStreamName = "''x''" and aPlaybackRate = "0x4000000000000000" and aPlaying = True
      and aInfo = 7 and aSecondary = "Some 4096"] returns name
  show ?thesis
    by (simp add: reaches_both_def)
qed

section \<open>Shutdown\<close>

text \<open>
  C5 (as amended).  \<^verbatim>\<open>MultiplexerSink::Shutdown\<close> calls \<^verbatim>\<open>Shutdown\<close> on the primary sink
  once and, when that call returns, on the secondary sink once, and completes as the
  secondary's call does; it returns no value.  Nothing is caught: when the primary's
  \<^verbatim>\<open>Shutdown\<close> does not return, the secondary's is not called and the composite's
  \<^verbatim>\<open>Shutdown\<close> does not return either.
\<close>

theorem Shutdown_reaches_secondary_when_primary_returns:
  "(fst (Shutdown primary w) = Returns () \<longrightarrow>
      reaches_both (MultiplexerSink_Shutdown (observed primary secondary)) w
        CallShutdown (Shutdown primary) (Shutdown secondary))
   \<and> (fst (Shutdown primary w) = Aborts \<longrightarrow>
      calls_of (MultiplexerSink_Shutdown (observed primary secondary)) w
        = [(VideoSink, CallShutdown)]
      \<and> outcome_of (MultiplexerSink_Shutdown (observed primary secondary)) w = Aborts)"
  by (simp add: observe')

text \<open>Both cases on the test sinks: a primary that returns, and one that does not.\<close>

theorem Shutdown_reaches_secondary_when_primary_returns_witness:
  "fst (Shutdown (TestSink VideoSink (Returns NS_OK) (Returns ())) (idle, idle)) = Returns ()
   \<and> calls_of (MultiplexerSink_Shutdown
        (observed (TestSink VideoSink (Returns NS_OK) (Returns ()))
           (TestSink DecodedStream (Returns NS_OK) Aborts))) (idle, idle)
     = [(VideoSink, CallShutdown), (DecodedStream, CallShutdown)]
   \<and> fst (Shutdown (TestSink VideoSink (Returns NS_ERROR_FAILURE) Aborts) (idle, idle)) = Aborts
   \<and> outcome_of (MultiplexerSink_Shutdown
        (observed (TestSink VideoSink (Returns NS_ERROR_FAILURE) Aborts)
           (TestSink DecodedStream (Returns NS_OK) Aborts))) (idle, idle)
     = Aborts"
proof -
  let ?S = "TestSink DecodedStream (Returns NS_OK) Aborts"
  have returns: "fst (Shutdown (TestSink VideoSink (Returns NS_OK) (Returns ())) (idle, idle))
      = Returns ()"
    by (simp add: TestSink_def)
  have aborts: "fst (Shutdown (TestSink VideoSink (Returns NS_ERROR_FAILURE) Aborts) (idle, idle))
      = Aborts"
    by (simp add: TestSink_def)
  from Shutdown_reaches_secondary_when_primary_returns
         [where primary = "TestSink VideoSink (Returns NS_OK) (Returns ())"
            and w = "(idle, idle)" and secondary = ?S]
       Shutdown_reaches_secondary_when_primary_returns
         [where primary = "TestSink VideoSink (Returns NS_ERROR_FAILURE) Aborts"
            and w = "(idle, idle)" and secondary = ?S]
       returns aborts
  show ?thesis
    by (simp add: reaches_both_def)
qed

text \<open>
  The claim as written fails for a primary whose \<^verbatim>\<open>Shutdown\<close> does not return: the
  secondary's \<^verbatim>\<open>Shutdown\<close> is never called, and the caller is not shielded.
\<close>

theorem Shutdown_primary_aborts_counterexample:
  "fst (Shutdown (TestSink VideoSink (Returns NS_OK) Aborts) (idle, idle)) = Aborts
   \<and> calls_of (MultiplexerSink_Shutdown
        (observed (TestSink VideoSink (Returns NS_OK) Aborts)
           (TestSink DecodedStream (Returns NS_OK) (Returns ())))) (idle, idle)
     = [(VideoSink, CallShutdown)]
   \<and> (DecodedStream, CallShutdown) \<notin> set (calls_of (MultiplexerSink_Shutdown
        (observed (TestSink VideoSink (Returns NS_OK) Aborts)
           (TestSink DecodedStream (Returns NS_OK) (Returns ())))) (idle, idle))
   \<and> outcome_of (MultiplexerSink_Shutdown
        (observed (TestSink VideoSink (Returns NS_OK) Aborts)
           (TestSink DecodedStream (Returns NS_OK) (Returns ())))) (idle, idle)
     = Aborts"
  by (simp add: observe TestSink_def)

section \<open>Operations kept from the secondary sink\<close>

text \<open>
  C6.  For every volume and every pitch flag, \<^verbatim>\<open>SetVolume\<close> and \<^verbatim>\<open>SetPreservesPitch\<close>
  call the primary sink's mutator of the same name and nothing else: no operation of the
  secondary sink is called.  \<^verbatim>\<open>GetDebugInfo\<close> likewise goes to the primary alone.
\<close>

theorem volume_pitch_debug_reach_primary_only:
  "reaches_primary_only (MultiplexerSink_SetVolume (observed primary secondary) aVolume) w
     (CallSetVolume aVolume) (SetVolume primary aVolume)
   \<and> reaches_primary_only
       (MultiplexerSink_SetPreservesPitch (observed primary secondary) aPreservesPitch) w
       (CallSetPreservesPitch aPreservesPitch) (SetPreservesPitch primary aPreservesPitch)
   \<and> reaches_primary_only (MultiplexerSink_GetDebugInfo (observed primary secondary) aInfo) w
       (CallGetDebugInfo aInfo) (GetDebugInfo primary aInfo)"
  by (simp add: observe')

section \<open>Playback rate\<close>

text \<open>
  C7.  Let the primary sink report the last rate set on it: its \<^verbatim>\<open>SetPlaybackRate(r)\<close>
  returns and its \<^verbatim>\<open>PlaybackRate()\<close> then answers \<open>r\<close>, and a \<^verbatim>\<open>SetPlaybackRate(r)\<close>
  on the secondary (a separate sink) returns and leaves that answer alone.  Then
  \<^verbatim>\<open>SetPlaybackRate(r)\<close> on the composite hands \<open>r\<close> to the primary and to the
  secondary, and \<^verbatim>\<open>PlaybackRate()\<close> on the composite afterwards asks the primary alone
  and returns \<open>r\<close>.
\<close>

theorem SetPlaybackRate_then_PlaybackRate:
  assumes primary_reports_last_rate:
    "\<forall>w. fst (SetPlaybackRate primary r w) = Returns ()
         \<and> fst (PlaybackRate primary (snd (SetPlaybackRate primary r w))) = Returns r"
  and secondary_is_separate:
    "\<forall>w. fst (SetPlaybackRate secondary r w) = Returns ()
         \<and> fst (PlaybackRate primary (snd (SetPlaybackRate secondary r w)))
           = fst (PlaybackRate primary w)"
  shows "events_of (and_then (MultiplexerSink_SetPlaybackRate (observed primary secondary) r)
           (\<lambda>_. MultiplexerSink_PlaybackRate (observed primary secondary))) w
         = [(VideoSink, CallSetPlaybackRate r, Returns Void),
            (DecodedStream, CallSetPlaybackRate r, Returns Void),
            (VideoSink, CallPlaybackRate, Returns (OfDouble r))]
       \<and> outcome_of (and_then (MultiplexerSink_SetPlaybackRate (observed primary secondary) r)
           (\<lambda>_. MultiplexerSink_PlaybackRate (observed primary secondary))) w
         = Returns r"
proof -
  let ?w1 = "snd (SetPlaybackRate primary r w)"
  let ?w2 = "snd (SetPlaybackRate secondary r ?w1)"
  have p: "fst (SetPlaybackRate primary r w) = Returns ()"
    using primary_reports_last_rate by blast
  have s: "fst (SetPlaybackRate secondary r ?w1) = Returns ()"
    using secondary_is_separate by blast
  have "fst (PlaybackRate primary ?w2) = fst (PlaybackRate primary ?w1)"
    using secondary_is_separate by blast
  then have rate: "fst (PlaybackRate primary ?w2) = Returns r"
    using primary_reports_last_rate by simp
  have set_run: "MultiplexerSink_SetPlaybackRate (observed primary secondary) r (w, [])
      = (Returns (), ?w2, [(VideoSink, CallSetPlaybackRate r, Returns Void),
            (DecodedStream, CallSetPlaybackRate r, Returns Void)])"
    using p s
    by (simp add: MultiplexerSink_SetPlaybackRate_def observed_members recording_def both_run
        void_def)
  show ?thesis
    using rate
    by (simp add: events_of_def outcome_of_def and_then_def set_run
        MultiplexerSink_PlaybackRate_def observed_members recording_def recorded_run)
qed


text \<open>An instance on the two test sinks, with the rate 1.5.\<close>

theorem SetPlaybackRate_then_PlaybackRate_witness:
  "events_of (and_then (MultiplexerSink_SetPlaybackRate
       (observed (TestSink VideoSink (Returns NS_OK) (Returns ()))
          (TestSink DecodedStream (Returns NS_OK) (Returns ()))) 0x3FF8000000000000)
     (\<lambda>_. MultiplexerSink_PlaybackRate
       (observed (TestSink VideoSink (Returns NS_OK) (Returns ()))
          (TestSink DecodedStream (Returns NS_OK) (Returns ()))))) (idle, idle)
   = [(VideoSink, CallSetPlaybackRate 0x3FF8000000000000, Returns Void),
      (DecodedStream, CallSetPlaybackRate 0x3FF8000000000000, Returns Void),
      (VideoSink, CallPlaybackRate, Returns (OfDouble 0x3FF8000000000000))]
   \<and> outcome_of (and_then (MultiplexerSink_SetPlaybackRate
       (observed (TestSink VideoSink (Returns NS_OK) (Returns ()))
          (TestSink DecodedStream (Returns NS_OK) (Returns ()))) 0x3FF8000000000000)
     (\<lambda>_. MultiplexerSink_PlaybackRate
       (observed (TestSink VideoSink (Returns NS_OK) (Returns ()))
          (TestSink DecodedStream (Returns NS_OK) (Returns ()))))) (idle, idle)
   = Returns 0x3FF8000000000000"
proof -
  let ?P = "TestSink VideoSink (Returns NS_OK) (Returns ())"
  let ?S = "TestSink DecodedStream (Returns NS_OK) (Returns ())"
  have primary: "\<forall>w. fst (SetPlaybackRate ?P 0x3FF8000000000000 w) = Returns ()
      \<and> fst (PlaybackRate ?P (snd (SetPlaybackRate ?P 0x3FF8000000000000 w)))
        = Returns 0x3FF8000000000000"
    by (simp add: TestSink_def)
  have secondary: "\<forall>w. fst (SetPlaybackRate ?S 0x3FF8000000000000 w) = Returns ()
      \<and> fst (PlaybackRate ?P (snd (SetPlaybackRate ?S 0x3FF8000000000000 w)))
        = fst (PlaybackRate ?P w)"
    by (simp add: TestSink_def)
  show ?thesis
    by (rule SetPlaybackRate_then_PlaybackRate [OF primary secondary])
qed


section \<open>No state of its own\<close>

text \<open>
  C8.  A \<^verbatim>\<open>MultiplexerSink\<close> is its two sink references and nothing more: the constructor
  stores them, and no operation returns a changed composite.  So every operation is
  determined by what the owned sinks do: take two runs of the same operation with the same
  arguments, over any sinks and any states; if the calls on the owned sinks complete alike
  in both runs, then the composite completes alike and makes the same calls in the same
  order.
\<close>

theorem composite_is_deterministic:
  "(answers_of (invoke c (MultiplexerSink_as_MediaSink (observed primary secondary))) w
      = answers_of (invoke c (MultiplexerSink_as_MediaSink (observed primary' secondary'))) w'
    \<longrightarrow> outcome_of (invoke c (MultiplexerSink_as_MediaSink (observed primary secondary))) w
          = outcome_of (invoke c (MultiplexerSink_as_MediaSink (observed primary' secondary'))) w'
        \<and> calls_of (invoke c (MultiplexerSink_as_MediaSink (observed primary secondary))) w
          = calls_of (invoke c (MultiplexerSink_as_MediaSink (observed primary' secondary'))) w')
   \<and> mVideoSink (MultiplexerSink_new aVideoSink aDecodedStream) = aVideoSink
   \<and> mDecodedStream (MultiplexerSink_new aVideoSink aDecodedStream) = aDecodedStream
   \<and> MultiplexerSink_new (mVideoSink this) (mDecodedStream this) = this"
proof -
  have runs: "answers_of (invoke c (MultiplexerSink_as_MediaSink (observed primary secondary))) w
      = answers_of (invoke c (MultiplexerSink_as_MediaSink (observed primary' secondary'))) w'
    \<Longrightarrow> outcome_of (invoke c (MultiplexerSink_as_MediaSink (observed primary secondary))) w
          = outcome_of (invoke c (MultiplexerSink_as_MediaSink (observed primary' secondary'))) w'
        \<and> calls_of (invoke c (MultiplexerSink_as_MediaSink (observed primary secondary))) w
          = calls_of (invoke c (MultiplexerSink_as_MediaSink (observed primary' secondary'))) w'"
    by (cases c)
      (auto simp: MultiplexerSink_as_MediaSink_def observe answering_run
        split: completion.splits)
  show ?thesis
    using runs by (simp add: MultiplexerSink_new_def)
qed

text \<open>
  An instance: \<^verbatim>\<open>Start(3, 5)\<close> over differently configured test sinks in different states,
  whose \<^verbatim>\<open>Start\<close> calls answer alike.
\<close>

theorem composite_is_deterministic_witness:
  "answers_of (invoke (CallStart 3 5) (MultiplexerSink_as_MediaSink
       (observed (TestSink VideoSink (Returns NS_OK) (Returns ()))
          (TestSink DecodedStream (Returns NS_ERROR_FAILURE) (Returns ()))))) (idle, idle)
     = answers_of (invoke (CallStart 3 5) (MultiplexerSink_as_MediaSink
       (observed (TestSink VideoSink (Returns NS_OK) Aborts)
          (TestSink DecodedStream (Returns NS_ERROR_FAILURE) Aborts))))
       (idle\<lparr>playing := True\<rparr>, idle\<lparr>stream_name := ''x''\<rparr>)
   \<and> outcome_of (invoke (CallStart 3 5) (MultiplexerSink_as_MediaSink
       (observed (TestSink VideoSink (Returns NS_OK) (Returns ()))
          (TestSink DecodedStream (Returns NS_ERROR_FAILURE) (Returns ()))))) (idle, idle)
     = outcome_of (invoke (CallStart 3 5) (MultiplexerSink_as_MediaSink
       (observed (TestSink VideoSink (Returns NS_OK) Aborts)
          (TestSink DecodedStream (Returns NS_ERROR_FAILURE) Aborts))))
       (idle\<lparr>playing := True\<rparr>, idle\<lparr>stream_name := ''x''\<rparr>)
   \<and> calls_of (invoke (CallStart 3 5) (MultiplexerSink_as_MediaSink
       (observed (TestSink VideoSink (Returns NS_OK) (Returns ()))
          (TestSink DecodedStream (Returns NS_ERROR_FAILURE) (Returns ()))))) (idle, idle)
     = calls_of (invoke (CallStart 3 5) (MultiplexerSink_as_MediaSink
       (observed (TestSink VideoSink (Returns NS_OK) Aborts)
          (TestSink DecodedStream (Returns NS_ERROR_FAILURE) Aborts))))
       (idle\<lparr>playing := True\<rparr>, idle\<lparr>stream_name := ''x''\<rparr>)"
proof -
  let ?run = "invoke (CallStart 3 5) (MultiplexerSink_as_MediaSink
       (observed (TestSink VideoSink (Returns NS_OK) (Returns ()))
          (TestSink DecodedStream (Returns NS_ERROR_FAILURE) (Returns ()))))"
  let ?run' = "invoke (CallStart 3 5) (MultiplexerSink_as_MediaSink
       (observed (TestSink VideoSink (Returns NS_OK) Aborts)
          (TestSink DecodedStream (Returns NS_ERROR_FAILURE) Aborts)))"
  let ?w' = "(idle\<lparr>playing := True\<rparr>, idle\<lparr>stream_name := ''x''\<rparr>)"
  have alike: "answers_of ?run (idle, idle) = answers_of ?run' ?w'"
    by (simp add: MultiplexerSink_as_MediaSink_def observe answering_run TestSink_def)
  from composite_is_deterministic [where c = "CallStart 3 5"
      and primary = "TestSink VideoSink (Returns NS_OK) (Returns ())"
      and secondary = "TestSink DecodedStream (Returns NS_ERROR_FAILURE) (Returns ())"
      and w = "(idle, idle)"
      and primary' = "TestSink VideoSink (Returns NS_OK) Aborts"
      and secondary' = "TestSink DecodedStream (Returns NS_ERROR_FAILURE) Aborts"
      and w' = ?w'] alike
  show ?thesis
    by blast
qed

section \<open>Arguments handed on\<close>

text \<open>
  C9.  For every start time and info, \<^verbatim>\<open>MultiplexerSink::Start\<close> hands the very pair
  (\<open>aStartTime\<close>, \<open>aInfo\<close>) it was given to the primary's \<^verbatim>\<open>Start\<close> and, whatever that
  returns, to the secondary's \<^verbatim>\<open>Start\<close>: both recorded calls carry the pair unchanged, and
  the state left is the one the secondary's \<^verbatim>\<open>Start\<close> on that pair leaves after the
  primary's \<^verbatim>\<open>Start\<close> on that pair.
\<close>

theorem Start_passes_arguments_unchanged:
  "(fst (Start primary aStartTime aInfo w) = Returns p \<longrightarrow>
      map snd (calls_of (MultiplexerSink_Start (observed primary secondary) aStartTime aInfo) w)
        = [CallStart aStartTime aInfo, CallStart aStartTime aInfo]
      \<and> state_after (MultiplexerSink_Start (observed primary secondary) aStartTime aInfo) w
        = snd (Start secondary aStartTime aInfo (snd (Start primary aStartTime aInfo w))))"
  by (simp add: observe)

text \<open>An instance with start time 3 and info 5, the primary failing.\<close>

theorem Start_passes_arguments_unchanged_witness:
  "fst (Start (TestSink VideoSink (Returns NS_ERROR_FAILURE) (Returns ())) 3 5 (idle, idle))
     = Returns NS_ERROR_FAILURE
   \<and> map snd (calls_of (MultiplexerSink_Start
        (observed (TestSink VideoSink (Returns NS_ERROR_FAILURE) (Returns ()))
           (TestSink DecodedStream (Returns NS_OK) (Returns ()))) 3 5) (idle, idle))
     = [CallStart 3 5, CallStart 3 5]
   \<and> state_after (MultiplexerSink_Start
        (observed (TestSink VideoSink (Returns NS_ERROR_FAILURE) (Returns ()))
           (TestSink DecodedStream (Returns NS_OK) (Returns ()))) 3 5) (idle, idle)
     = (idle, idle\<lparr>started := True\<rparr>)"
proof -
  let ?P = "TestSink VideoSink (Returns NS_ERROR_FAILURE) (Returns ())"
  let ?S = "TestSink DecodedStream (Returns NS_OK) (Returns ())"
  have returns: "fst (Start ?P 3 5 (idle, idle)) = Returns NS_ERROR_FAILURE"
    by (simp add: TestSink_def)
  have state: "snd (Start ?S 3 5 (snd (Start ?P 3 5 (idle, idle))))
      = (idle, idle\<lparr>started := True\<rparr>)"
    by (simp add: TestSink_def idle_def NS_OK_neq_NS_ERROR_FAILURE [symmetric])
  from Start_passes_arguments_unchanged [where primary = ?P and secondary = ?S
      and aStartTime = 3 and aInfo = 5 and w = "(idle, idle)" and p = NS_ERROR_FAILURE]
    returns state
  show ?thesis
    by simp
qed

section \<open>The timestamp of GetPosition\<close>

text \<open>
  C10.  \<^verbatim>\<open>GetPosition\<close> hands the caller's timestamp pointer (null when the argument is
  left out) to the primary sink's \<^verbatim>\<open>GetPosition\<close> and makes no other call: the state
  afterwards, with whatever was written through the pointer, is the state the primary's
  call left, and the secondary sink, which is not called and may be replaced by any other
  without changing the operation, neither sees the pointer nor writes through it.
\<close>

theorem GetPosition_timestamp_reaches_primary_only:
  "reaches_primary_only (MultiplexerSink_GetPosition (observed primary secondary) aTimeStamp) w
     (CallGetPosition aTimeStamp) (GetPosition primary aTimeStamp)
   \<and> reaches_primary_only (MultiplexerSink_GetPosition_default (observed primary secondary)) w
     (CallGetPosition None) (GetPosition primary None)
   \<and> MultiplexerSink_GetPosition_default this = MultiplexerSink_GetPosition this None
   \<and> MultiplexerSink_GetPosition (MultiplexerSink_new aVideoSink aDecodedStream) aTimeStamp
     = MultiplexerSink_GetPosition (MultiplexerSink_new aVideoSink other) aTimeStamp"
  by (simp add: observe' MultiplexerSink_new_def)


end
